theory Spec2Isabelle
  imports Complex_Main "HOL-Library.Char_ord" "HOL-Library.List_Lexorder"
begin

section \<open>JavaScript values\<close>

text \<open>
  The handlers of this backend are JavaScript. A number is modelled by its exact value:
  a rational, one of the two infinities, or NaN. Rounding to a double and the sign of
  zero are not modelled. The model is the program wherever no rounding occurs, in
  particular on sums, differences and products of integers that stay below \<open>2^53\<close> in
  magnitude; a property that depends on the value of an arithmetic result carries such
  bounds as hypotheses. (\<open>-0\<close> is printed as \<open>0\<close> in JSON.)
\<close>

datatype jsnum = NaN | PosInf | NegInf | Fin rat

datatype jsval = Undefined | Str string | Num jsnum

text \<open>\<open>!v\<close> is the negation of \<open>truthy v\<close>.\<close>

fun truthy :: "jsval \<Rightarrow> bool" where
  "truthy Undefined = False"
| "truthy (Str s) = (s \<noteq> [])"
| "truthy (Num NaN) = False"
| "truthy (Num (Fin r)) = (r \<noteq> 0)"
| "truthy (Num _) = True"

section \<open>HTTP responses\<close>

text \<open>
  \<open>res.status(n).json(b)\<close> sends status \<open>n\<close> and body \<open>b\<close>; \<open>res.json(b)\<close>
  sends status 200. The error envelope is \<open>{ success, message }\<close>.
\<close>

record envelope =
  success :: bool
  message :: string

section \<open>The admin middleware (middleware/admin.js)\<close>

text \<open>The user document of models/User.js.\<close>

record user_doc =
  user_id :: string
  user_name :: string
  email :: string
  password :: string
  role :: string
  phone :: "string option"
  address :: "string option"
  wishlist :: "string list"
  user_isActive :: bool

text \<open>
  \<open>req.user\<close> is what the authentication middleware left on the request: the decoded
  token payload. \<open>userId\<close> is any JavaScript value (\<open>Undefined\<close> when the payload
  has no such property).
\<close>

record subject =
  userId :: jsval
  issuedAt :: nat
  expiresAt :: nat

record request =
  user :: "subject option"
  currentUser :: "user_doc option"

text \<open>
  \<open>await User.findById(id)\<close> resolves to a document, resolves to \<open>null\<close>, or rejects
  with an error (here its message).
\<close>

datatype lookup = Found user_doc | NotFound | Throws string

type_synonym credential_store = "jsval \<Rightarrow> lookup"

text \<open>
  What one run of the middleware did: the identifiers it looked up in the store, and the
  errors it handed to \<open>logger.error\<close>.
\<close>

record effects =
  lookups :: "jsval list"
  logged :: "string list"

datatype outcome =
    Responded nat envelope
  | Next request

definition isAdmin :: "credential_store \<Rightarrow> request \<Rightarrow> outcome \<times> effects" where
  "isAdmin findById req =
     (case user req of
        None \<Rightarrow>
          (Responded 401 \<lparr>success = False, message = ''Authentication required''\<rparr>,
           \<lparr>lookups = [], logged = []\<rparr>)
      | Some s \<Rightarrow>
          if \<not> truthy (userId s) then
            (Responded 401 \<lparr>success = False, message = ''Authentication required''\<rparr>,
             \<lparr>lookups = [], logged = []\<rparr>)
          else
            (case findById (userId s) of
               Throws e \<Rightarrow>
                 (Responded 500
                    \<lparr>success = False, message = ''Server error during authorization''\<rparr>,
                  \<lparr>lookups = [userId s], logged = [e]\<rparr>)
             | NotFound \<Rightarrow>
                 (Responded 404 \<lparr>success = False, message = ''User not found''\<rparr>,
                  \<lparr>lookups = [userId s], logged = []\<rparr>)
             | Found u \<Rightarrow>
                 if role u \<noteq> ''admin'' then
                   (Responded 403
                      \<lparr>success = False,
                       message = ''Access denied: Admin privileges required''\<rparr>,
                    \<lparr>lookups = [userId s], logged = []\<rparr>)
                 else
                   (Next (req\<lparr>currentUser := Some u\<rparr>),
                    \<lparr>lookups = [userId s], logged = []\<rparr>)))"

text \<open>Sample data used to run the definitions.\<close>

definition alice :: user_doc where
  "alice = \<lparr>user_id = ''u1'', user_name = ''Alice'', email = ''alice@example.com'',
     password = ''$2a$10$hash'', role = ''admin'', phone = None, address = None,
     wishlist = [], user_isActive = True\<rparr>"

definition bob :: user_doc where
  "bob = alice\<lparr>user_id := ''u2'', user_name := ''Bob'', email := ''bob@example.com'',
     role := ''user''\<rparr>"

definition sample_users :: credential_store where
  "sample_users v =
     (if v = Str ''u1'' then Found alice
      else if v = Str ''u2'' then Found bob
      else if v = Str ''boom'' then Throws ''connection lost''
      else NotFound)"

definition request_of :: "string \<Rightarrow> request" where
  "request_of uid =
     \<lparr>user = Some \<lparr>userId = Str uid, issuedAt = 0, expiresAt = 86400\<rparr>,
      currentUser = None\<rparr>"

section \<open>The token service\<close>

text \<open>
  Tokens are signed and checked by the login controller and the authentication
  middleware, which call the jsonwebtoken library; only a call of \<open>jwt.sign\<close> with
  \<open>{ expiresIn: '1d' }\<close> is part of the sources at hand. Times are seconds. The
  signature algorithm is a parameter \<open>mac\<close>: any function of the secret and the payload.
\<close>

record payload =
  tok_userId :: jsval
  iat :: nat
  exp_at :: nat

datatype 'sig token = Unparsable string | Signed payload 'sig

datatype auth_error = InvalidSignature | Expired | Malformed

definition token_lifetime :: nat where
  "token_lifetime = 86400"

text \<open>
  Modelled from the spec: \<open>issue(userId)\<close> of the Token Service, whose code is not among
  the sources. It produces a signed token embedding \<open>userId\<close> and an expiration
  timestamp one day after issuance.
\<close>

definition issue :: "(string \<Rightarrow> payload \<Rightarrow> 'sig) \<Rightarrow> string \<Rightarrow> nat \<Rightarrow> jsval \<Rightarrow> 'sig token" where
  "issue mac secret now u =
     (let p = \<lparr>tok_userId = u, iat = now, exp_at = now + token_lifetime\<rparr>
      in Signed p (mac secret p))"

text \<open>
  Modelled from the spec: \<open>verify(token)\<close> of the Token Service, whose code is not among
  the sources. It fails with \<open>Malformed\<close> if the token cannot be parsed, with
  \<open>InvalidSignature\<close> if the signature does not match, with \<open>Expired\<close> if the current
  time is at or after the embedded expiry, and otherwise returns the embedded \<open>userId\<close>
  and timestamps.
\<close>

definition verify :: "(string \<Rightarrow> payload \<Rightarrow> 'sig) \<Rightarrow> string \<Rightarrow> nat \<Rightarrow> 'sig token \<Rightarrow> auth_error + subject" where
  "verify mac secret now tok =
     (case tok of
        Unparsable _ \<Rightarrow> Inl Malformed
      | Signed p sg \<Rightarrow>
          if sg \<noteq> mac secret p then Inl InvalidSignature
          else if now \<ge> exp_at p then Inl Expired
          else Inr \<lparr>userId = tok_userId p, issuedAt = iat p, expiresAt = exp_at p\<rparr>)"

text \<open>A toy signature for running the definitions: the secret followed by the times.\<close>

definition toy_mac :: "string \<Rightarrow> payload \<Rightarrow> string \<times> nat \<times> nat" where
  "toy_mac secret p = (secret, iat p, exp_at p)"

section \<open>JavaScript arithmetic and string-to-number conversion\<close>

text \<open>
  The arithmetic operators of the product controller, on exact values. A product of an
  infinity and zero, a difference of equal infinities and \<open>0 / 0\<close> are NaN; a non-zero
  number divided by zero is an infinity.
\<close>

fun js_neg :: "jsnum \<Rightarrow> jsnum" where
  "js_neg NaN = NaN"
| "js_neg PosInf = NegInf"
| "js_neg NegInf = PosInf"
| "js_neg (Fin a) = Fin (- a)"

fun js_mul :: "jsnum \<Rightarrow> jsnum \<Rightarrow> jsnum" where
  "js_mul NaN _ = NaN"
| "js_mul _ NaN = NaN"
| "js_mul (Fin a) (Fin b) = Fin (a * b)"
| "js_mul (Fin a) PosInf = (if a = 0 then NaN else if 0 < a then PosInf else NegInf)"
| "js_mul (Fin a) NegInf = (if a = 0 then NaN else if 0 < a then NegInf else PosInf)"
| "js_mul PosInf (Fin b) = (if b = 0 then NaN else if 0 < b then PosInf else NegInf)"
| "js_mul NegInf (Fin b) = (if b = 0 then NaN else if 0 < b then NegInf else PosInf)"
| "js_mul PosInf PosInf = PosInf"
| "js_mul PosInf NegInf = NegInf"
| "js_mul NegInf PosInf = NegInf"
| "js_mul NegInf NegInf = PosInf"

fun js_sub :: "jsnum \<Rightarrow> jsnum \<Rightarrow> jsnum" where
  "js_sub NaN _ = NaN"
| "js_sub _ NaN = NaN"
| "js_sub (Fin a) (Fin b) = Fin (a - b)"
| "js_sub (Fin a) PosInf = NegInf"
| "js_sub (Fin a) NegInf = PosInf"
| "js_sub PosInf PosInf = NaN"
| "js_sub NegInf NegInf = NaN"
| "js_sub PosInf _ = PosInf"
| "js_sub NegInf _ = NegInf"

fun js_div :: "jsnum \<Rightarrow> jsnum \<Rightarrow> jsnum" where
  "js_div NaN _ = NaN"
| "js_div _ NaN = NaN"
| "js_div (Fin a) (Fin b) =
     (if b \<noteq> 0 then Fin (a / b)
      else if a = 0 then NaN else if 0 < a then PosInf else NegInf)"
| "js_div (Fin a) _ = Fin 0"
| "js_div PosInf (Fin b) = (if 0 \<le> b then PosInf else NegInf)"
| "js_div NegInf (Fin b) = (if 0 \<le> b then NegInf else PosInf)"
| "js_div _ _ = NaN"

text \<open>\<open>Math.ceil\<close>.\<close>

fun js_ceil :: "jsnum \<Rightarrow> jsnum" where
  "js_ceil (Fin a) = Fin (of_int \<lceil>a\<rceil>)"
| "js_ceil x = x"

text \<open>
  The conversion of a string to a number (\<open>Number(s)\<close>, and the operands of \<open>*\<close>,
  \<open>-\<close> and \<open>/\<close>): white space around the literal is dropped; the empty string is 0;
  a literal is \<open>Infinity\<close> or a decimal number, each with an optional sign, or an
  unsigned integer in base 16, 8 or 2 after \<open>0x\<close>, \<open>0o\<close>, \<open>0b\<close>; everything else is NaN.
  Characters are bytes, and only the white space of ASCII is recognised. The result is
  the exact value of the literal, where JavaScript takes the nearest double; the two
  agree whenever the exact value is an integer below \<open>2^53\<close> in magnitude.
\<close>

definition is_ws :: "char \<Rightarrow> bool" where
  "is_ws c \<longleftrightarrow> c \<in> set [CHR '' '', CHR 0x09, CHR 0x0A, CHR 0x0B, CHR 0x0C, CHR 0x0D]"

definition trim :: "string \<Rightarrow> string" where
  "trim s = rev (dropWhile is_ws (rev (dropWhile is_ws s)))"

definition digit_val :: "char \<Rightarrow> nat option" where
  "digit_val c =
     (let n = (of_char c :: nat) in
      if 48 \<le> n \<and> n \<le> 57 then Some (n - 48)
      else if 97 \<le> n \<and> n \<le> 102 then Some (n - 87)
      else if 65 \<le> n \<and> n \<le> 70 then Some (n - 55)
      else None)"

definition is_digit :: "nat \<Rightarrow> char \<Rightarrow> bool" where
  "is_digit b c = (case digit_val c of Some d \<Rightarrow> d < b | None \<Rightarrow> False)"

definition digits_value :: "nat \<Rightarrow> string \<Rightarrow> nat" where
  "digits_value b ds =
     foldl (\<lambda>acc c. acc * b + (case digit_val c of Some d \<Rightarrow> d | None \<Rightarrow> 0)) 0 ds"

text \<open>An exponent part: \<open>e\<close> or \<open>E\<close>, an optional sign, and at least one digit.\<close>

definition exponent_part :: "string \<Rightarrow> int option" where
  "exponent_part s =
     (case s of
        [] \<Rightarrow> Some 0
      | c # r \<Rightarrow>
          if c \<noteq> CHR ''e'' \<and> c \<noteq> CHR ''E'' then None
          else
            (let neg = (r \<noteq> [] \<and> hd r = CHR ''-'');
                 ds = (if r \<noteq> [] \<and> (hd r = CHR ''-'' \<or> hd r = CHR ''+'') then tl r else r)
             in if ds = [] \<or> \<not> list_all (is_digit 10) ds then None
                else Some (if neg then - int (digits_value 10 ds) else int (digits_value 10 ds))))"

definition scale10 :: "rat \<Rightarrow> int \<Rightarrow> rat" where
  "scale10 m e = (if 0 \<le> e then m * 10 ^ nat e else m / 10 ^ nat (- e))"

definition unsigned_decimal :: "string \<Rightarrow> rat option" where
  "unsigned_decimal s =
     (let ip = takeWhile (is_digit 10) s;
          r1 = dropWhile (is_digit 10) s;
          dot = (r1 \<noteq> [] \<and> hd r1 = CHR ''.'');
          fp = (if dot then takeWhile (is_digit 10) (tl r1) else []);
          r2 = (if dot then dropWhile (is_digit 10) (tl r1) else r1)
      in if ip = [] \<and> fp = [] then None
         else
           (case exponent_part r2 of
              None \<Rightarrow> None
            | Some e \<Rightarrow>
                Some (scale10 (of_nat (digits_value 10 (ip @ fp)) / 10 ^ length fp) e)))"

definition radix_literal :: "nat \<Rightarrow> string \<Rightarrow> jsnum" where
  "radix_literal b ds =
     (if ds \<noteq> [] \<and> list_all (is_digit b) ds then Fin (of_nat (digits_value b ds)) else NaN)"

definition signed_decimal :: "string \<Rightarrow> jsnum" where
  "signed_decimal s =
     (let neg = (s \<noteq> [] \<and> hd s = CHR ''-'');
          body = (if s \<noteq> [] \<and> (hd s = CHR ''-'' \<or> hd s = CHR ''+'') then tl s else s);
          v = (if body = ''Infinity'' then PosInf
               else (case unsigned_decimal body of None \<Rightarrow> NaN | Some r \<Rightarrow> Fin r))
      in if neg then js_neg v else v)"

definition string_to_number :: "string \<Rightarrow> jsnum" where
  "string_to_number s =
     (let t = trim s in
      if t = [] then Fin 0
      else if take 2 t = ''0x'' \<or> take 2 t = ''0X'' then radix_literal 16 (drop 2 t)
      else if take 2 t = ''0o'' \<or> take 2 t = ''0O'' then radix_literal 8 (drop 2 t)
      else if take 2 t = ''0b'' \<or> take 2 t = ''0B'' then radix_literal 2 (drop 2 t)
      else signed_decimal t)"

fun to_number :: "jsval \<Rightarrow> jsnum" where
  "to_number Undefined = NaN"
| "to_number (Str s) = string_to_number s"
| "to_number (Num n) = n"

text \<open>
  \<open>res.json\<close> prints a finite number as it is and NaN and the infinities as \<open>null\<close>
  (here \<open>None\<close>).
\<close>

fun json_number :: "jsnum \<Rightarrow> rat option" where
  "json_number (Fin a) = Some a"
| "json_number _ = None"

section \<open>The catalogue store\<close>

text \<open>The product document of models/Product.js; \<open>createdAt\<close> comes from \<open>timestamps\<close>.\<close>

record product =
  product_id :: string
  name :: string
  description :: string
  price :: rat
  stock :: rat
  category :: string
  brand :: "string option"
  sizes :: "string list"
  colors :: "string list"
  sku :: "string option"
  imageUrl :: string
  isActive :: bool
  createdAt :: nat

text \<open>
  The filter object that \<open>getProducts\<close> builds: \<open>isActive\<close>, and optionally
  \<open>category\<close>, \<open>brand: { $regex, $options }\<close>, \<open>price: { $gte, $lte }\<close> and
  \<open>$text: { $search }\<close>.
\<close>

record price_filter =
  gte :: "jsnum option"
  lte :: "jsnum option"

record mongo_query =
  f_isActive :: bool
  f_category :: "string option"
  f_brand :: "(string \<times> string) option"
  f_price :: "price_filter option"
  f_text :: "string option"

datatype sort_field = CreatedAt | Price | Name

type_synonym sort_option = "sort_field \<times> int"

text \<open>
  The store is MongoDB behind Mongoose, which this repository only calls. Its regular
  expression engine and its text search are parameters of the model: whether a pattern
  compiles, whether a pattern with given options matches somewhere in a string, and
  whether a search string matches the fields of the text index. A further parameter,
  \<open>irregular\<close>, is what the store does with a limit and a skip that are not both
  natural numbers (a negative number, a fraction, NaN, an infinity): it fails
  (\<open>None\<close>), or it returns the matching documents from some offset, all of them or at
  most some number of them.
\<close>

record store_env =
  regex_valid :: "string \<Rightarrow> bool"
  regex_search :: "string \<Rightarrow> string \<Rightarrow> string \<Rightarrow> bool"
  text_search :: "string \<Rightarrow> string list \<Rightarrow> bool"
  irregular :: "jsnum \<Rightarrow> jsnum \<Rightarrow> (nat \<times> nat option) option"

text \<open>The text index of the product schema covers \<open>name\<close>, \<open>description\<close> and \<open>brand\<close>.\<close>

definition text_fields :: "product \<Rightarrow> string list" where
  "text_fields p = [name p, description p] @ (case brand p of None \<Rightarrow> [] | Some b \<Rightarrow> [b])"

text \<open>Comparison of a stored price with a bound; nothing compares with NaN.\<close>

fun num_ge :: "rat \<Rightarrow> jsnum \<Rightarrow> bool" where
  "num_ge r (Fin b) = (b \<le> r)"
| "num_ge r NegInf = True"
| "num_ge r _ = False"

fun num_le :: "rat \<Rightarrow> jsnum \<Rightarrow> bool" where
  "num_le r (Fin b) = (r \<le> b)"
| "num_le r PosInf = True"
| "num_le r _ = False"

text \<open>A document matches a filter object when it matches every field of it.\<close>

definition matches :: "store_env \<Rightarrow> mongo_query \<Rightarrow> product \<Rightarrow> bool" where
  "matches env q p \<longleftrightarrow>
     isActive p = f_isActive q \<and>
     (case f_category q of None \<Rightarrow> True | Some c \<Rightarrow> category p = c) \<and>
     (case f_brand q of
        None \<Rightarrow> True
      | Some (pat, opts) \<Rightarrow>
          (case brand p of None \<Rightarrow> False | Some b \<Rightarrow> regex_search env pat opts b)) \<and>
     (case f_price q of
        None \<Rightarrow> True
      | Some pf \<Rightarrow>
          (case gte pf of None \<Rightarrow> True | Some g \<Rightarrow> num_ge (price p) g) \<and>
          (case lte pf of None \<Rightarrow> True | Some l \<Rightarrow> num_le (price p) l)) \<and>
     (case f_text q of None \<Rightarrow> True | Some s \<Rightarrow> text_search env s (text_fields p))"

text \<open>
  The store rejects a filter whose pattern does not compile or whose price bound is NaN
  (Mongoose refuses to cast NaN to the Number type of \<open>price\<close>).
\<close>

definition query_accepted :: "store_env \<Rightarrow> mongo_query \<Rightarrow> bool" where
  "query_accepted env q \<longleftrightarrow>
     (case f_brand q of None \<Rightarrow> True | Some (pat, opts) \<Rightarrow> regex_valid env pat) \<and>
     (case f_price q of None \<Rightarrow> True | Some pf \<Rightarrow> gte pf \<noteq> Some NaN \<and> lte pf \<noteq> Some NaN)"

text \<open>
  Sorting by one field, ascending for direction 1 and descending otherwise. Strings are
  compared byte by byte.
\<close>

definition order_by :: "sort_option \<Rightarrow> product list \<Rightarrow> product list" where
  "order_by so xs =
     (let asc = (case fst so of
                   CreatedAt \<Rightarrow> sort_key createdAt xs
                 | Price \<Rightarrow> sort_key price xs
                 | Name \<Rightarrow> sort_key name xs)
      in if snd so = 1 then asc else rev asc)"

definition integral :: "jsnum \<Rightarrow> int option" where
  "integral x = (case x of Fin r \<Rightarrow> if of_int \<lfloor>r\<rfloor> = r then Some \<lfloor>r\<rfloor> else None | _ \<Rightarrow> None)"

datatype store_error = StoreError

text \<open>
  The window of the matching documents that a limit and a skip select: an offset and,
  unless there is no limit, a greatest number of documents. For natural numbers \<open>l\<close>
  and \<open>k\<close> the offset is \<open>k\<close> and the number is \<open>l\<close>, where, as MongoDB documents it,
  a limit of 0 is no limit. Every other pair of arguments is left to \<open>irregular\<close>.
\<close>

definition window :: "store_env \<Rightarrow> jsnum \<Rightarrow> jsnum \<Rightarrow> (nat \<times> nat option) option" where
  "window env n_limit n_skip =
     (case (integral n_limit, integral n_skip) of
        (Some l, Some k) \<Rightarrow>
          if 0 \<le> l \<and> 0 \<le> k then Some (nat k, if l = 0 then None else Some (nat l))
          else irregular env n_limit n_skip
      | _ \<Rightarrow> irregular env n_limit n_skip)"

text \<open>
  \<open>Product.find(query).sort(s).limit(l).skip(k)\<close> over the documents \<open>db\<close>: the
  matching documents in order, without those before the offset, and then at most as
  many as the limit allows.
\<close>

definition find_products ::
  "store_env \<Rightarrow> product list \<Rightarrow> mongo_query \<Rightarrow> sort_option \<Rightarrow> jsnum \<Rightarrow> jsnum \<Rightarrow>
     store_error + product list" where
  "find_products env db q so n_limit n_skip =
     (if \<not> query_accepted env q then Inl StoreError
      else
        (case window env n_limit n_skip of
           None \<Rightarrow> Inl StoreError
         | Some (k, most) \<Rightarrow>
             (let ms = drop k (order_by so (filter (matches env q) db))
              in Inr (case most of None \<Rightarrow> ms | Some m \<Rightarrow> take m ms))))"

definition countDocuments :: "store_env \<Rightarrow> product list \<Rightarrow> mongo_query \<Rightarrow> store_error + nat" where
  "countDocuments env db q =
     (if \<not> query_accepted env q then Inl StoreError
      else Inr (length (filter (matches env q) db)))"

section \<open>The product listing (controllers/productController.js, getProducts)\<close>

text \<open>
  \<open>req.query\<close>: each parameter is absent or a string, as Express delivers a parameter
  that occurs once in the query string.
\<close>

record query_params =
  qp_page :: "string option"
  qp_limit :: "string option"
  qp_category :: "string option"
  qp_brand :: "string option"
  qp_search :: "string option"
  qp_sort :: "string option"
  qp_minPrice :: "string option"
  qp_maxPrice :: "string option"

definition param :: "string option \<Rightarrow> jsval" where
  "param v = (case v of None \<Rightarrow> Undefined | Some s \<Rightarrow> Str s)"

text \<open>A destructuring default applies when the property is \<open>undefined\<close>.\<close>

definition with_default :: "jsval \<Rightarrow> jsnum \<Rightarrow> jsval" where
  "with_default v d = (if v = Undefined then Num d else v)"

definition page_of :: "query_params \<Rightarrow> jsval" where
  "page_of qp = with_default (param (qp_page qp)) (Fin 1)"

definition limit_of :: "query_params \<Rightarrow> jsval" where
  "limit_of qp = with_default (param (qp_limit qp)) (Fin 10)"

text \<open>The filter object, built by the assignments of the handler in their order.\<close>

definition query_of :: "query_params \<Rightarrow> mongo_query" where
  "query_of qp =
     (let query0 = \<lparr>f_isActive = True, f_category = None, f_brand = None, f_price = None,
                    f_text = None\<rparr>;
          query1 = (if truthy (param (qp_category qp))
                    then query0\<lparr>f_category := qp_category qp\<rparr> else query0);
          query2 = (case qp_brand qp of
                      None \<Rightarrow> query1
                    | Some b \<Rightarrow>
                        if truthy (Str b) then query1\<lparr>f_brand := Some (b, ''i'')\<rparr>
                        else query1);
          query3 =
            (if truthy (param (qp_minPrice qp)) \<or> truthy (param (qp_maxPrice qp)) then
               (let price0 = \<lparr>gte = None, lte = None\<rparr>;
                    price1 = (if truthy (param (qp_minPrice qp))
                              then price0\<lparr>gte := Some (to_number (param (qp_minPrice qp)))\<rparr>
                              else price0);
                    price2 = (if truthy (param (qp_maxPrice qp))
                              then price1\<lparr>lte := Some (to_number (param (qp_maxPrice qp)))\<rparr>
                              else price1)
                in query2\<lparr>f_price := Some price2\<rparr>)
             else query2);
          query4 = (if truthy (param (qp_search qp))
                    then query3\<lparr>f_text := qp_search qp\<rparr> else query3)
      in query4)"

text \<open>The sort option: the default, overwritten by the first token that equals \<open>sort\<close>.\<close>

definition sortOption_of :: "query_params \<Rightarrow> sort_option" where
  "sortOption_of qp =
     (let sort = param (qp_sort qp);
          s0 = (CreatedAt, - 1);
          s1 = (if sort = Str ''price_asc'' then (Price, 1) else s0);
          s2 = (if sort = Str ''price_desc'' then (Price, - 1) else s1);
          s3 = (if sort = Str ''name_asc'' then (Name, 1) else s2);
          s4 = (if sort = Str ''name_desc'' then (Name, - 1) else s3)
      in s4)"

text \<open>\<open>limit * 1\<close> and \<open>(page - 1) * limit\<close>, the arguments of \<open>.limit\<close> and \<open>.skip\<close>.\<close>

definition limit_arg :: "query_params \<Rightarrow> jsnum" where
  "limit_arg qp = js_mul (to_number (limit_of qp)) (Fin 1)"

definition skip_arg :: "query_params \<Rightarrow> jsnum" where
  "skip_arg qp = js_mul (js_sub (to_number (page_of qp)) (Fin 1)) (to_number (limit_of qp))"

record pagination =
  total :: nat
  page :: "rat option"
  pages :: "rat option"

record listing =
  ok :: bool
  data :: "product list"
  pagination :: pagination

datatype body = Listing listing | Failure envelope

text \<open>
  The handler: both store calls are inside \<open>try\<close>, and an error of either is answered
  with 500 and \<open>{ success: false, message: 'Server error' }\<close> (the call of the logger
  is left out). The field \<open>success\<close> of a listing is \<open>ok\<close> here.
\<close>

definition getProducts :: "store_env \<Rightarrow> product list \<Rightarrow> query_params \<Rightarrow> nat \<times> body" where
  "getProducts env db qp =
     (let query = query_of qp;
          sortOption = sortOption_of qp
      in case find_products env db query sortOption (limit_arg qp) (skip_arg qp) of
           Inl e \<Rightarrow> (500, Failure \<lparr>success = False, message = ''Server error''\<rparr>)
         | Inr products \<Rightarrow>
             (case countDocuments env db query of
                Inl e \<Rightarrow> (500, Failure \<lparr>success = False, message = ''Server error''\<rparr>)
              | Inr count \<Rightarrow>
                  (200, Listing
                     \<lparr>ok = True,
                      data = products,
                      pagination =
                        \<lparr>total = count,
                         page = json_number (to_number (page_of qp)),
                         pages = json_number
                           (js_ceil (js_div (Fin (of_nat count)) (to_number (limit_of qp))))\<rparr>\<rparr>)))"

section \<open>A small store for running the definitions\<close>

text \<open>
  A regular expression engine for the patterns that consist of ordinary characters and
  the wildcard \<open>.\<close> (any character but a line feed); option \<open>i\<close> ignores the case of
  ASCII letters. Patterns that contain another metacharacter do not compile here.
\<close>

definition metachars :: "char list" where
  "metachars = [CHR 0x5C, CHR ''^'', CHR ''$'', CHR ''*'', CHR ''+'', CHR ''?'', CHR ''('',
     CHR '')'', CHR ''['', CHR '']'', CHR ''{'', CHR ''}'', CHR ''|'']"

definition plain_pattern :: "string \<Rightarrow> bool" where
  "plain_pattern pat = list_all (\<lambda>c. c \<notin> set metachars) pat"

definition lower :: "char \<Rightarrow> char" where
  "lower c = (let n = (of_char c :: nat) in if 65 \<le> n \<and> n \<le> 90 then char_of (n + 32) else c)"

definition same_char :: "bool \<Rightarrow> char \<Rightarrow> char \<Rightarrow> bool" where
  "same_char ci a b = (if ci then lower a = lower b else a = b)"

fun rx_here :: "bool \<Rightarrow> string \<Rightarrow> string \<Rightarrow> bool" where
  "rx_here ci [] s = True"
| "rx_here ci (p # ps) [] = False"
| "rx_here ci (p # ps) (c # cs) =
     ((if p = CHR ''.'' then c \<noteq> CHR 0x0A else same_char ci p c) \<and> rx_here ci ps cs)"

fun rx_search :: "bool \<Rightarrow> string \<Rightarrow> string \<Rightarrow> bool" where
  "rx_search ci pat [] = rx_here ci pat []"
| "rx_search ci pat (c # cs) = (rx_here ci pat (c # cs) \<or> rx_search ci pat cs)"

text \<open>Whether \<open>needle\<close> occurs in \<open>hay\<close> as a substring, ignoring the case of letters.\<close>

fun starts_with_ci :: "string \<Rightarrow> string \<Rightarrow> bool" where
  "starts_with_ci [] s = True"
| "starts_with_ci (a # as) [] = False"
| "starts_with_ci (a # as) (c # cs) = (lower a = lower c \<and> starts_with_ci as cs)"

fun substring_ci :: "string \<Rightarrow> string \<Rightarrow> bool" where
  "substring_ci needle [] = starts_with_ci needle []"
| "substring_ci needle (c # cs) = (starts_with_ci needle (c # cs) \<or> substring_ci needle cs)"

text \<open>
  The text search of this small store only looks for the search string in a field, and
  the store fails on a limit and a skip that are not both natural numbers.
\<close>

definition small_env :: store_env where
  "small_env =
     \<lparr>regex_valid = plain_pattern,
      regex_search = (\<lambda>pat opts s. rx_search (CHR ''i'' \<in> set opts) pat s),
      text_search = (\<lambda>s fields. list_ex (substring_ci s) fields),
      irregular = (\<lambda>l k. None)\<rparr>"

text \<open>The same store, but one that rounds a limit and a skip down to natural numbers.\<close>

definition rounding_env :: store_env where
  "rounding_env =
     small_env\<lparr>irregular :=
       (\<lambda>l k. case (l, k) of
                 (Fin a, Fin b) \<Rightarrow>
                   Some (nat \<lfloor>b\<rfloor>, if \<lfloor>a\<rfloor> \<le> 0 then None else Some (nat \<lfloor>a\<rfloor>))
               | _ \<Rightarrow> None)\<rparr>"

definition tee :: product where
  "tee = \<lparr>product_id = ''p1'', name = ''Classic White Tee'',
     description = ''Premium cotton t-shirt'', price = 25, stock = 50, category = ''Men'',
     brand = Some ''Generic'', sizes = [''M'', ''L'', ''XL''], colors = [''White''],
     sku = None, imageUrl = ''https://via.placeholder.com/150'', isActive = True,
     createdAt = 1000\<rparr>"

definition cap :: product where
  "cap = tee\<lparr>product_id := ''p2'', name := ''Running Cap'', description := ''A light cap'',
     price := 15, category := ''Accessories'', brand := Some ''Nike'', createdAt := 2000\<rparr>"

definition sock :: product where
  "sock = tee\<lparr>product_id := ''p3'', name := ''Wool Sock'', description := ''Warm socks'',
     price := 5, category := ''Unisex'', brand := None, isActive := False,
     createdAt := 3000\<rparr>"

definition no_params :: query_params where
  "no_params = \<lparr>qp_page = None, qp_limit = None, qp_category = None, qp_brand = None,
     qp_search = None, qp_sort = None, qp_minPrice = None, qp_maxPrice = None\<rparr>"

text \<open>A parameter that is the empty string, replaced by an absent one.\<close>

definition unset_if_empty :: "string option \<Rightarrow> string option" where
  "unset_if_empty v = (if v = Some [] then None else v)"

definition without_empty :: "query_params \<Rightarrow> query_params" where
  "without_empty qp =
     qp\<lparr>qp_category := unset_if_empty (qp_category qp),
        qp_brand := unset_if_empty (qp_brand qp),
        qp_search := unset_if_empty (qp_search qp),
        qp_sort := unset_if_empty (qp_sort qp),
        qp_minPrice := unset_if_empty (qp_minPrice qp),
        qp_maxPrice := unset_if_empty (qp_maxPrice qp)\<rparr>"

section \<open>Properties of the admin middleware\<close>

text \<open>
  C1. A request carries a subject whose user document exists in the store. When the
  document's role is not \<open>admin\<close> the middleware answers 403 with the body
  \<open>{ success: false, message }\<close>; when it is \<open>admin\<close> the middleware calls
  \<open>next()\<close> and the request then carries the whole document as \<open>currentUser\<close>.
\<close>

theorem isAdmin_role_decision:
  assumes "user req = Some s" and "truthy (userId s)" and "findById (userId s) = Found u"
  shows "(role u \<noteq> ''admin'' \<longrightarrow>
            fst (isAdmin findById req) =
              Responded 403 \<lparr>success = False,
                             message = ''Access denied: Admin privileges required''\<rparr>) \<and>
         (role u = ''admin'' \<longrightarrow>
            fst (isAdmin findById req) = Next (req\<lparr>currentUser := Some u\<rparr>))"
  using assms by (simp add: isAdmin_def)

theorem isAdmin_role_decision_witness:
  "fst (isAdmin sample_users (request_of ''u2'')) =
     Responded 403 \<lparr>success = False,
                    message = ''Access denied: Admin privileges required''\<rparr> \<and>
   fst (isAdmin sample_users (request_of ''u1'')) =
     Next ((request_of ''u1'')\<lparr>currentUser := Some alice\<rparr>)"
proof -
  let ?s = "\<lambda>uid. \<lparr>userId = Str uid, issuedAt = 0, expiresAt = 86400\<rparr>"
  have b: "user (request_of ''u2'') = Some (?s ''u2'')" "truthy (userId (?s ''u2''))"
    "sample_users (userId (?s ''u2'')) = Found bob" "role bob \<noteq> ''admin''"
    by (simp_all add: request_of_def sample_users_def bob_def alice_def)
  have a: "user (request_of ''u1'') = Some (?s ''u1'')" "truthy (userId (?s ''u1''))"
    "sample_users (userId (?s ''u1'')) = Found alice" "role alice = ''admin''"
    by (simp_all add: request_of_def sample_users_def alice_def)
  from isAdmin_role_decision
         [where findById = sample_users and req = "request_of ''u2''" and u = bob, OF b(1-3)]
       isAdmin_role_decision
         [where findById = sample_users and req = "request_of ''u1''" and u = alice, OF a(1-3)]
       b(4) a(4)
  show ?thesis by blast
qed

text \<open>
  C7. With no subject on the request the middleware answers 401 and has looked nothing
  up in the store. With a subject whose identifier the store does not know (the lookup
  resolves to \<open>null\<close>) it answers 404.
\<close>

theorem isAdmin_unauthenticated_or_unknown:
  "(user req = None \<longrightarrow>
      isAdmin findById req =
        (Responded 401 \<lparr>success = False, message = ''Authentication required''\<rparr>,
         \<lparr>lookups = [], logged = []\<rparr>)) \<and>
   (user req = Some s \<and> truthy (userId s) \<and> findById (userId s) = NotFound \<longrightarrow>
      fst (isAdmin findById req) =
        Responded 404 \<lparr>success = False, message = ''User not found''\<rparr>)"
  by (simp add: isAdmin_def)

theorem isAdmin_unauthenticated_or_unknown_witness:
  "isAdmin sample_users \<lparr>user = None, currentUser = None\<rparr> =
     (Responded 401 \<lparr>success = False, message = ''Authentication required''\<rparr>,
      \<lparr>lookups = [], logged = []\<rparr>) \<and>
   fst (isAdmin sample_users (request_of ''u9'')) =
     Responded 404 \<lparr>success = False, message = ''User not found''\<rparr>"
proof -
  let ?s = "\<lparr>userId = Str ''u9'', issuedAt = 0, expiresAt = 86400\<rparr>"
  have n: "user \<lparr>user = None, currentUser = None\<rparr> = None"
    by simp
  have m: "user (request_of ''u9'') = Some ?s \<and> truthy (userId ?s) \<and>
           sample_users (userId ?s) = NotFound"
    by (simp add: request_of_def sample_users_def)
  from isAdmin_unauthenticated_or_unknown
         [of "\<lparr>user = None, currentUser = None\<rparr>" sample_users ?s] n
       isAdmin_unauthenticated_or_unknown [of "request_of ''u9''" sample_users ?s] m
  show ?thesis by blast
qed

text \<open>
  C8. When the store lookup throws, the middleware catches the error and answers 500
  with the fixed body \<open>{ success: false, message: 'Server error during authorization' }\<close>.
  The body is the same whatever the error was; the error itself only reaches the logger.
\<close>

theorem isAdmin_lookup_failure:
  assumes "user req = Some s" and "truthy (userId s)" and "findById (userId s) = Throws e"
  shows "isAdmin findById req =
           (Responded 500
              \<lparr>success = False, message = ''Server error during authorization''\<rparr>,
            \<lparr>lookups = [userId s], logged = [e]\<rparr>)"
  using assms by (simp add: isAdmin_def)

theorem isAdmin_lookup_failure_witness:
  "isAdmin sample_users (request_of ''boom'') =
     (Responded 500
        \<lparr>success = False, message = ''Server error during authorization''\<rparr>,
      \<lparr>lookups = [Str ''boom''], logged = [''connection lost'']\<rparr>)"
proof -
  let ?s = "\<lparr>userId = Str ''boom'', issuedAt = 0, expiresAt = 86400\<rparr>"
  have h: "user (request_of ''boom'') = Some ?s" "truthy (userId ?s)"
    "sample_users (userId ?s) = Throws ''connection lost''"
    by (simp_all add: request_of_def sample_users_def)
  from isAdmin_lookup_failure
         [where findById = sample_users and req = "request_of ''boom''", OF h]
  show ?thesis by simp
qed

section \<open>Properties of the token service\<close>

text \<open>
  C6. A token issued for \<open>u\<close> at time \<open>t\<close> expires one day later; verified with the
  same secret at any time before that, it is accepted, and the subject returned has
  \<open>userId = u\<close>.
\<close>

theorem verify_issue:
  assumes "now < t + token_lifetime"
  shows "verify mac secret now (issue mac secret t u) =
           Inr \<lparr>userId = u, issuedAt = t, expiresAt = t + 86400\<rparr>"
  using assms by (simp add: verify_def issue_def Let_def token_lifetime_def)

theorem verify_issue_witness:
  "verify toy_mac ''your-secret-key'' 86399 (issue toy_mac ''your-secret-key'' 0 (Str ''u1'')) =
     Inr \<lparr>userId = Str ''u1'', issuedAt = 0, expiresAt = 86400\<rparr>"
proof -
  have h: "(86399::nat) < 0 + token_lifetime"
    by (simp add: token_lifetime_def)
  from verify_issue [OF h, of toy_mac "''your-secret-key''" "Str ''u1''"]
  show ?thesis by simp
qed

section \<open>Properties of the product listing\<close>

subsection \<open>Auxiliary facts\<close>

lemma js_mul_one: "js_mul x (Fin 1) = x"
  by (cases x) simp_all

lemma js_mul_NaN_right: "js_mul x NaN = NaN"
  by (cases x) simp_all

lemma limit_arg_eq: "limit_arg qp = to_number (limit_of qp)"
  by (simp add: limit_arg_def js_mul_one)

lemma limit_of_cases:
  "to_number (limit_of qp) = (case qp_limit qp of None \<Rightarrow> Fin 10 | Some s \<Rightarrow> string_to_number s)"
  by (simp add: limit_of_def with_default_def param_def split: option.split)

lemma page_of_cases:
  "to_number (page_of qp) = (case qp_page qp of None \<Rightarrow> Fin 1 | Some s \<Rightarrow> string_to_number s)"
  by (simp add: page_of_def with_default_def param_def split: option.split)

lemma string_to_number_empty: "string_to_number [] = Fin 0"
  by (simp add: string_to_number_def trim_def)

lemma integral_of_nat: "integral (Fin (of_nat n)) = Some (int n)"
  by (simp add: integral_def)

lemma integral_SomeD: "integral x = Some k \<Longrightarrow> x = Fin (of_int k)"
  by (auto simp: integral_def split: jsnum.splits if_splits)

lemma skip_Fin:
  assumes "js_mul (js_sub pg (Fin 1)) (Fin n) = Fin s" and "n \<noteq> 0"
  shows "\<exists>p. pg = Fin p \<and> s = (p - 1) * n"
  using assms by (cases pg) (auto split: if_splits)

lemma set_order_by: "set (order_by so xs) = set xs"
  by (cases so) (simp add: order_by_def Let_def split: sort_field.split)

lemma window_naturals:
  "window env (Fin (of_nat n)) (Fin (of_nat k)) = Some (k, if n = 0 then None else Some n)"
  by (simp only: window_def integral_of_nat) simp

lemma find_products_InrD:
  assumes "find_products env db q so n_limit n_skip = Inr ps"
  shows "query_accepted env q \<and>
         (\<exists>k most. window env n_limit n_skip = Some (k, most) \<and>
            ps = (let ms = drop k (order_by so (filter (matches env q) db))
                  in case most of None \<Rightarrow> ms | Some m \<Rightarrow> take m ms))"
proof -
  from assms have acc: "query_accepted env q"
    by (auto simp: find_products_def split: if_splits)
  from assms acc obtain k most where w: "window env n_limit n_skip = Some (k, most)"
    by (auto simp: find_products_def split: option.splits)
  from assms acc w
  have "ps = (let ms = drop k (order_by so (filter (matches env q) db))
              in case most of None \<Rightarrow> ms | Some m \<Rightarrow> take m ms)"
    by (simp add: find_products_def Let_def)
  with acc w show ?thesis
    by blast
qed

lemma getProducts_ListingD:
  assumes "getProducts env db qp = (st, Listing l)"
  shows "st = 200 \<and> ok l \<and>
         find_products env db (query_of qp) (sortOption_of qp) (limit_arg qp) (skip_arg qp) = Inr (data l) \<and>
         total (pagination l) = length (filter (matches env (query_of qp)) db) \<and>
         page (pagination l) = json_number (to_number (page_of qp)) \<and>
         pages (pagination l) = json_number (js_ceil (js_div (Fin (of_nat (total (pagination l)))) (to_number (limit_of qp))))"
  using assms
  by (auto simp: getProducts_def Let_def countDocuments_def split: sum.splits if_splits)

lemma matches_query_of:
  "matches env (query_of qp) p \<longleftrightarrow>
     isActive p \<and>
     (\<forall>c. qp_category qp = Some c \<and> c \<noteq> [] \<longrightarrow> category p = c) \<and>
     (\<forall>b. qp_brand qp = Some b \<and> b \<noteq> [] \<longrightarrow>
        (\<exists>pb. brand p = Some pb \<and> regex_search env b ''i'' pb)) \<and>
     (\<forall>s. qp_minPrice qp = Some s \<and> s \<noteq> [] \<longrightarrow> num_ge (price p) (string_to_number s)) \<and>
     (\<forall>s. qp_maxPrice qp = Some s \<and> s \<noteq> [] \<longrightarrow> num_le (price p) (string_to_number s)) \<and>
     (\<forall>s. qp_search qp = Some s \<and> s \<noteq> [] \<longrightarrow> text_search env s (text_fields p))"
  by (cases "qp_category qp"; cases "qp_brand qp"; cases "qp_minPrice qp";
      cases "qp_maxPrice qp"; cases "qp_search qp")
     (auto simp: matches_def query_of_def Let_def param_def split: option.splits)

text \<open>
  The handler answers with a listing whenever the limit denotes a natural number, the
  page denotes a positive integer and the store accepts the filter.
\<close>

lemma getProducts_succeeds:
  assumes lim: "to_number (limit_of qp) = Fin (of_nat n)"
    and pg: "to_number (page_of qp) = Fin (of_nat p)" and pos: "0 < p"
    and acc: "query_accepted env (query_of qp)"
  shows "\<exists>l. getProducts env db qp = (200, Listing l)"
proof -
  from pos obtain m where m: "p = Suc m"
    by (cases p) auto
  have sk: "skip_arg qp = Fin (of_nat (m * n))"
    by (simp add: skip_arg_def lim pg m)
  have "window env (limit_arg qp) (skip_arg qp) = Some (m * n, if n = 0 then None else Some n)"
    by (simp only: limit_arg_eq lim sk window_naturals)
  then have "\<exists>ps. find_products env db (query_of qp) (sortOption_of qp) (limit_arg qp) (skip_arg qp) = Inr ps"
    by (simp add: find_products_def acc Let_def)
  then obtain ps where "find_products env db (query_of qp) (sortOption_of qp) (limit_arg qp) (skip_arg qp) = Inr ps"
    by blast
  then show ?thesis
    by (simp add: getProducts_def Let_def countDocuments_def acc)
qed

text \<open>
  The status of the answer: 200 when the store accepts the filter and the limit and skip
  select a window, and 500 otherwise.
\<close>

lemma getProducts_status:
  "fst (getProducts env db qp) =
     (if query_accepted env (query_of qp) \<and> window env (limit_arg qp) (skip_arg qp) \<noteq> None
      then 200 else 500)"
  by (auto simp: getProducts_def Let_def find_products_def countDocuments_def
           split: option.splits sum.splits)

subsection \<open>Sorting\<close>

text \<open>
  C2. The sort parameter \<open>price_asc\<close> gives \<open>{ price: 1 }\<close>, \<open>price_desc\<close> gives
  \<open>{ price: -1 }\<close>, \<open>name_asc\<close> gives \<open>{ name: 1 }\<close>, \<open>name_desc\<close> gives
  \<open>{ name: -1 }\<close>, and every other value, an absent one included, gives the default
  \<open>{ createdAt: -1 }\<close>. The sort parameter never decides whether the handler answers
  with an error: the status is the same for every value of it.
\<close>

theorem sort_resolution:
  "sortOption_of qp =
     (if qp_sort qp = Some ''price_asc'' then (Price, 1)
      else if qp_sort qp = Some ''price_desc'' then (Price, - 1)
      else if qp_sort qp = Some ''name_asc'' then (Name, 1)
      else if qp_sort qp = Some ''name_desc'' then (Name, - 1)
      else (CreatedAt, - 1)) \<and>
   fst (getProducts env db (qp\<lparr>qp_sort := s\<rparr>)) = fst (getProducts env db qp)"
proof
  show "sortOption_of qp =
     (if qp_sort qp = Some ''price_asc'' then (Price, 1)
      else if qp_sort qp = Some ''price_desc'' then (Price, - 1)
      else if qp_sort qp = Some ''name_asc'' then (Name, 1)
      else if qp_sort qp = Some ''name_desc'' then (Name, - 1)
      else (CreatedAt, - 1))"
    by (cases "qp_sort qp") (simp_all add: sortOption_of_def param_def)
next
  have q: "query_of (qp\<lparr>qp_sort := s\<rparr>) = query_of qp"
    by (simp add: query_of_def Let_def cong: if_cong option.case_cong)
  have a: "limit_arg (qp\<lparr>qp_sort := s\<rparr>) = limit_arg qp" "skip_arg (qp\<lparr>qp_sort := s\<rparr>) = skip_arg qp"
    by (simp_all add: limit_arg_def skip_arg_def limit_of_def page_of_def)
  show "fst (getProducts env db (qp\<lparr>qp_sort := s\<rparr>)) = fst (getProducts env db qp)"
    by (simp only: getProducts_status q a)
qed

theorem sort_resolution_witness:
  "sortOption_of (no_params\<lparr>qp_sort := Some ''price_asc''\<rparr>) = (Price, 1) \<and>
   sortOption_of (no_params\<lparr>qp_sort := Some ''name_desc''\<rparr>) = (Name, - 1) \<and>
   sortOption_of (no_params\<lparr>qp_sort := Some ''newest''\<rparr>) = (CreatedAt, - 1) \<and>
   sortOption_of no_params = (CreatedAt, - 1) \<and>
   fst (getProducts small_env [tee, cap] (no_params\<lparr>qp_sort := Some ''newest''\<rparr>)) = 200"
proof -
  have ok: "fst (getProducts small_env [tee, cap] no_params) = 200"
    by code_simp
  from sort_resolution [where qp = "no_params\<lparr>qp_sort := Some ''price_asc''\<rparr>"]
       sort_resolution [where qp = "no_params\<lparr>qp_sort := Some ''name_desc''\<rparr>"]
       sort_resolution [where qp = "no_params\<lparr>qp_sort := Some ''newest''\<rparr>"]
       sort_resolution [where qp = no_params and env = small_env and db = "[tee, cap]"
                          and s = "Some ''newest''"]
       ok
  show ?thesis by (simp add: no_params_def)
qed

subsection \<open>Page and limit\<close>

text \<open>
  C3 as the specification states it does not hold: a limit of 0 or below is not replaced
  by the default 10, and there is no ceiling on the limit. The handler passes \<open>0\<close>,
  \<open>-5\<close> and \<open>1000000\<close> to the store as they are.
\<close>

theorem limit_zero_not_defaulted:
  "limit_arg (no_params\<lparr>qp_limit := Some ''0''\<rparr>) = Fin 0 \<and>
   limit_arg (no_params\<lparr>qp_limit := Some ''-5''\<rparr>) = Fin (- 5) \<and>
   limit_arg (no_params\<lparr>qp_limit := Some ''1000000''\<rparr>) = Fin 1000000 \<and>
   limit_arg no_params = Fin 10"
proof -
  have small: "limit_arg (no_params\<lparr>qp_limit := Some ''0''\<rparr>) = Fin 0"
    "limit_arg (no_params\<lparr>qp_limit := Some ''-5''\<rparr>) = Fin (- 5)"
    "limit_arg no_params = Fin 10"
    by code_simp+
  have large: "limit_arg (no_params\<lparr>qp_limit := Some ''1000000''\<rparr>) = Fin 1000000"
    by (simp add: limit_arg_eq limit_of_cases no_params_def string_to_number_def trim_def
        is_ws_def signed_decimal_def unsigned_decimal_def exponent_part_def scale10_def
        is_digit_def digit_val_def digits_value_def)
  from small large show ?thesis by simp
qed

text \<open>
  C3, amended. An absent page is 1 and an absent limit is 10, so that without both the
  store is asked for 10 documents from offset 0. A page or limit that is present is
  converted to a number and used as it is: the limit handed to the store is the number
  the parameter denotes, without a ceiling and without a replacement for 0 or a
  negative number.
\<close>

theorem page_limit_coercion:
  "(qp_page qp = None \<longrightarrow> to_number (page_of qp) = Fin 1) \<and>
   (qp_limit qp = None \<longrightarrow> limit_arg qp = Fin 10) \<and>
   (qp_page qp = None \<and> qp_limit qp = None \<longrightarrow> skip_arg qp = Fin 0) \<and>
   (\<forall>s. qp_page qp = Some s \<longrightarrow> to_number (page_of qp) = string_to_number s) \<and>
   (\<forall>s. qp_limit qp = Some s \<longrightarrow> limit_arg qp = string_to_number s)"
  by (simp add: limit_arg_eq limit_of_cases page_of_cases skip_arg_def)

theorem page_limit_coercion_witness:
  "to_number (page_of no_params) = Fin 1 \<and> limit_arg no_params = Fin 10 \<and>
   skip_arg no_params = Fin 0 \<and>
   limit_arg (no_params\<lparr>qp_limit := Some ''25''\<rparr>) = Fin 25 \<and>
   to_number (page_of (no_params\<lparr>qp_page := Some ''3''\<rparr>)) = Fin 3"
proof -
  have n: "string_to_number ''25'' = Fin 25" "string_to_number ''3'' = Fin 3"
    by code_simp+
  from page_limit_coercion [of no_params]
       page_limit_coercion [of "no_params\<lparr>qp_limit := Some ''25''\<rparr>"]
       page_limit_coercion [of "no_params\<lparr>qp_page := Some ''3''\<rparr>"] n
  show ?thesis by (simp add: no_params_def)
qed

subsection \<open>Pagination\<close>

text \<open>
  C4 as the specification states it does not hold for every request that succeeds: with
  \<open>limit=0\<close> the store applies no limit, the handler returns both documents of a
  two-document catalogue (more than the limit of 0), and \<open>pages\<close> is
  \<open>Math.ceil(2 / 0)\<close>, an infinity, which is printed as \<open>null\<close>.
\<close>

theorem limit_zero_returns_everything:
  "to_number (limit_of (no_params\<lparr>qp_limit := Some ''0''\<rparr>)) = Fin 0 \<and>
   getProducts small_env [tee, cap] (no_params\<lparr>qp_limit := Some ''0''\<rparr>) =
     (200, Listing \<lparr>ok = True, data = [cap, tee],
                     pagination = \<lparr>total = 2, page = Some 1, pages = None\<rparr>\<rparr>)"
  by code_simp

text \<open>
  C4, amended. The limit denotes a positive integer \<open>n\<close> and the page a positive
  integer \<open>p\<close>, and \<open>n\<close>, \<open>p\<close>, \<open>(p - 1) * n\<close> and the number of documents are
  below \<open>2^53\<close>, where the arithmetic of JavaScript is exact. When the handler then
  succeeds, \<open>pages\<close> is the ceiling of \<open>total / n\<close>, where \<open>total\<close> counts the
  matching documents; the data has at most \<open>n\<close> documents; and the data is the \<open>n\<close>
  documents from offset \<open>(p - 1) * n\<close> of the matching documents in the resolved sort
  order. This holds whatever the store does with arguments that are no natural numbers.
  Under the bounds the handler computes \<open>limit * 1\<close>, \<open>page - 1\<close> and
  \<open>(page - 1) * limit\<close> without rounding, and the rounded quotient \<open>count / limit\<close>
  has the ceiling of the exact one: a quotient that is no integer lies at least \<open>1 / n\<close>
  above its floor \<open>q\<close>, which is more than half the distance between \<open>q\<close> and the next
  double.
\<close>

theorem pagination_slice:
  assumes lim: "to_number (limit_of qp) = Fin (of_nat n)" and npos: "0 < n"
    and pg: "to_number (page_of qp) = Fin (of_nat p)" and ppos: "0 < p"
    and exact: "n < 2 ^ 53" "p < 2 ^ 53" "(p - 1) * n < 2 ^ 53" "length db < 2 ^ 53"
    and res: "getProducts env db qp = (200, Listing l)"
  shows "pages (pagination l) =
           Some (of_int \<lceil>rat_of_nat (total (pagination l)) / rat_of_nat n\<rceil>) \<and>
         total (pagination l) = length (filter (matches env (query_of qp)) db) \<and>
         page (pagination l) = Some (of_nat p) \<and>
         length (data l) \<le> n \<and>
         data l = take n (drop ((p - 1) * n)
                    (order_by (sortOption_of qp) (filter (matches env (query_of qp)) db)))"
proof -
  note d = getProducts_ListingD [OF res]
  from ppos obtain m where m: "p = Suc m"
    by (cases p) auto
  have sk: "skip_arg qp = Fin (of_nat (m * n))"
    by (simp add: skip_arg_def lim pg m)
  have w: "window env (limit_arg qp) (skip_arg qp) = Some (m * n, Some n)"
    using npos by (simp only: limit_arg_eq lim sk window_naturals) simp
  from d have f: "find_products env db (query_of qp) (sortOption_of qp) (limit_arg qp)
                    (skip_arg qp) = Inr (data l)"
    by simp
  from find_products_InrD [OF f] w
  have slice: "data l = take n (drop (m * n)
                 (order_by (sortOption_of qp) (filter (matches env (query_of qp)) db)))"
    by (auto simp: Let_def)
  from d lim npos have pgs: "pages (pagination l) =
      Some (of_int \<lceil>rat_of_nat (total (pagination l)) / rat_of_nat n\<rceil>)"
    by simp
  from d pg have pn: "page (pagination l) = Some (of_nat p)"
    by simp
  from slice have len: "length (data l) \<le> n"
    by simp
  from pgs d pn len slice m show ?thesis
    by simp
qed

theorem pagination_slice_witness:
  "getProducts rounding_env [tee, cap, sock]
     (no_params\<lparr>qp_page := Some ''2'', qp_limit := Some ''1'', qp_sort := Some ''price_asc''\<rparr>) =
     (200, Listing \<lparr>ok = True, data = [tee],
                     pagination = \<lparr>total = 2, page = Some 2, pages = Some 2\<rparr>\<rparr>) \<and>
   data \<lparr>ok = True, data = [tee],
         pagination = \<lparr>total = 2, page = Some 2, pages = Some 2\<rparr>\<rparr> =
     take 1 (drop ((2 - 1) * 1)
       (order_by
          (sortOption_of (no_params\<lparr>qp_page := Some ''2'', qp_limit := Some ''1'',
                                     qp_sort := Some ''price_asc''\<rparr>))
          (filter (matches rounding_env (query_of
                     (no_params\<lparr>qp_page := Some ''2'', qp_limit := Some ''1'',
                                qp_sort := Some ''price_asc''\<rparr>)))
             [tee, cap, sock])))"
proof -
  let ?qp = "no_params\<lparr>qp_page := Some ''2'', qp_limit := Some ''1'',
                        qp_sort := Some ''price_asc''\<rparr>"
  let ?l = "\<lparr>ok = True, data = [tee],
             pagination = \<lparr>total = 2, page = Some 2, pages = Some 2\<rparr>\<rparr>"
  have lim: "to_number (limit_of ?qp) = Fin (of_nat 1)"
    by code_simp
  have pg: "to_number (page_of ?qp) = Fin (of_nat 2)"
    by code_simp
  have res: "getProducts rounding_env [tee, cap, sock] ?qp = (200, Listing ?l)"
    by code_simp
  have pos: "(0::nat) < 1" "(0::nat) < 2"
    by simp_all
  have b: "(1::nat) < 2 ^ 53" "(2::nat) < 2 ^ 53" "(2 - 1) * 1 < (2::nat) ^ 53"
    "length [tee, cap, sock] < 2 ^ 53"
    by simp_all
  from pagination_slice [OF lim pos(1) pg pos(2) b res] res show ?thesis
    by blast
qed

text \<open>
  Without the hypothesis on the page the offset is left to the store: with
  \<open>page=1.5\<close> and \<open>limit=1\<close> the skip is one half, on which the small store fails and
  the store that rounds down returns the first document.
\<close>

lemma fractional_page_is_left_to_the_store:
  "skip_arg (no_params\<lparr>qp_page := Some ''1.5'', qp_limit := Some ''1''\<rparr>) = Fin (1 / 2) \<and>
   fst (getProducts small_env [tee, cap]
          (no_params\<lparr>qp_page := Some ''1.5'', qp_limit := Some ''1''\<rparr>)) = 500 \<and>
   fst (getProducts rounding_env [tee, cap]
          (no_params\<lparr>qp_page := Some ''1.5'', qp_limit := Some ''1''\<rparr>)) = 200"
  by code_simp

subsection \<open>The filter\<close>

text \<open>
  C5 as the specification states it does not hold: the brand parameter is not matched as
  a substring but handed to the store as a regular expression. The brand parameter
  \<open>.\<close> selects a product of brand \<open>Nike\<close>, in which \<open>.\<close> does not occur.
\<close>

theorem brand_pattern_is_not_a_substring:
  "getProducts small_env [cap] (no_params\<lparr>qp_brand := Some ''.''\<rparr>) =
     (200, Listing \<lparr>ok = True, data = [cap],
                     pagination = \<lparr>total = 1, page = Some 1, pages = Some 1\<rparr>\<rparr>) \<and>
   brand cap = Some ''Nike'' \<and> \<not> substring_ci ''.'' ''Nike''"
  by code_simp

text \<open>
  C5, amended. A document matches the filter of a request exactly when it is active and
  satisfies every filter whose parameter is present and not empty: its category equals
  \<open>category\<close>; it has a brand in which the regular expression \<open>brand\<close>, with option
  \<open>i\<close>, matches somewhere; its price is at least \<open>minPrice\<close>; its price is at most
  \<open>maxPrice\<close>; and the text search for \<open>search\<close> matches its name, description and
  brand. Every document of a listing is a document of the catalogue that is active and
  matches the filter, and \<open>total\<close> counts the matching documents.
\<close>

theorem listing_predicate:
  "(matches env (query_of qp) p \<longleftrightarrow>
     isActive p \<and>
     (\<forall>c. qp_category qp = Some c \<and> c \<noteq> [] \<longrightarrow> category p = c) \<and>
     (\<forall>b. qp_brand qp = Some b \<and> b \<noteq> [] \<longrightarrow>
        (\<exists>pb. brand p = Some pb \<and> regex_search env b ''i'' pb)) \<and>
     (\<forall>s. qp_minPrice qp = Some s \<and> s \<noteq> [] \<longrightarrow> num_ge (price p) (string_to_number s)) \<and>
     (\<forall>s. qp_maxPrice qp = Some s \<and> s \<noteq> [] \<longrightarrow> num_le (price p) (string_to_number s)) \<and>
     (\<forall>s. qp_search qp = Some s \<and> s \<noteq> [] \<longrightarrow> text_search env s (text_fields p))) \<and>
   (\<forall>st l. getProducts env db qp = (st, Listing l) \<longrightarrow>
      (\<forall>x \<in> set (data l). x \<in> set db \<and> isActive x \<and> matches env (query_of qp) x) \<and>
      total (pagination l) = length (filter (matches env (query_of qp)) db))"
proof (intro conjI allI impI ballI)
  show "matches env (query_of qp) p \<longleftrightarrow>
     isActive p \<and>
     (\<forall>c. qp_category qp = Some c \<and> c \<noteq> [] \<longrightarrow> category p = c) \<and>
     (\<forall>b. qp_brand qp = Some b \<and> b \<noteq> [] \<longrightarrow>
        (\<exists>pb. brand p = Some pb \<and> regex_search env b ''i'' pb)) \<and>
     (\<forall>s. qp_minPrice qp = Some s \<and> s \<noteq> [] \<longrightarrow> num_ge (price p) (string_to_number s)) \<and>
     (\<forall>s. qp_maxPrice qp = Some s \<and> s \<noteq> [] \<longrightarrow> num_le (price p) (string_to_number s)) \<and>
     (\<forall>s. qp_search qp = Some s \<and> s \<noteq> [] \<longrightarrow> text_search env s (text_fields p))"
    by (rule matches_query_of)
next
  fix st l x
  assume res: "getProducts env db qp = (st, Listing l)" and x: "x \<in> set (data l)"
  note d = getProducts_ListingD [OF res]
  from d find_products_InrD [of env db "query_of qp" "sortOption_of qp" "limit_arg qp" "skip_arg qp" "data l"]
  obtain k most where
    "data l = (let ms = drop k (order_by (sortOption_of qp) (filter (matches env (query_of qp)) db))
               in case most of None \<Rightarrow> ms | Some m \<Rightarrow> take m ms)"
    by blast
  with x have "x \<in> set (order_by (sortOption_of qp) (filter (matches env (query_of qp)) db))"
    by (auto simp: Let_def split: option.splits dest: in_set_takeD in_set_dropD)
  then have m: "x \<in> set db \<and> matches env (query_of qp) x"
    by (simp add: set_order_by)
  then show "x \<in> set db" and "matches env (query_of qp) x"
    by simp_all
  from m show "isActive x"
    by (simp add: matches_query_of)
next
  fix st l
  assume res: "getProducts env db qp = (st, Listing l)"
  from getProducts_ListingD [OF res]
  show "total (pagination l) = length (filter (matches env (query_of qp)) db)"
    by simp
qed

theorem listing_predicate_witness:
  "matches small_env (query_of (no_params\<lparr>qp_brand := Some ''nik'', qp_maxPrice := Some ''20''\<rparr>)) cap \<and>
   \<not> matches small_env (query_of (no_params\<lparr>qp_brand := Some ''nik'', qp_maxPrice := Some ''20''\<rparr>)) tee"
proof -
  let ?qp = "no_params\<lparr>qp_brand := Some ''nik'', qp_maxPrice := Some ''20''\<rparr>"
  have q: "qp_category ?qp = None" "qp_brand ?qp = Some ''nik''" "qp_minPrice ?qp = None"
    "qp_maxPrice ?qp = Some ''20''" "qp_search ?qp = None"
    by (simp_all add: no_params_def)
  have c: "isActive cap" "brand cap = Some ''Nike''"
    "regex_search small_env ''nik'' ''i'' ''Nike''"
    "num_le (price cap) (string_to_number ''20'')"
    by code_simp+
  have t: "\<not> num_le (price tee) (string_to_number ''20'')"
    by code_simp
  from listing_predicate [of small_env ?qp cap] listing_predicate [of small_env ?qp tee] q c t
  show ?thesis by simp
qed

subsection \<open>Numeric parameters that are no numbers\<close>

text \<open>
  C9 as the specification states it does not hold: a numeric parameter that cannot be
  converted is not treated as absent. With \<open>limit=abc\<close> the limit handed to the store
  is NaN, not the default 10; with \<open>page=abc\<close> the offset is NaN, not 0; with
  \<open>minPrice=abc\<close> the filter has the bound \<open>$gte: NaN\<close>, where an absent
  \<open>minPrice\<close> adds no price filter.
\<close>

theorem malformed_limit_is_not_defaulted:
  "limit_arg (no_params\<lparr>qp_limit := Some ''abc''\<rparr>) = NaN \<and>
   limit_arg no_params = Fin 10 \<and>
   skip_arg (no_params\<lparr>qp_page := Some ''abc''\<rparr>) = NaN \<and>
   skip_arg no_params = Fin 0 \<and>
   f_price (query_of (no_params\<lparr>qp_minPrice := Some ''abc''\<rparr>)) =
     Some \<lparr>gte = Some NaN, lte = None\<rparr> \<and>
   f_price (query_of no_params) = None"
  by code_simp

text \<open>
  C9, amended. A numeric parameter whose value cannot be converted to a number is
  neither checked nor replaced by a default: it becomes NaN and reaches the store as
  NaN. A limit that is no number makes the limit and the offset NaN, a page that is no
  number makes the offset NaN, and a \<open>minPrice\<close> or \<open>maxPrice\<close> that is no number
  puts the bound NaN into the price filter.
\<close>

theorem malformed_numbers_pass_through:
  "(\<forall>s. qp_limit qp = Some s \<and> string_to_number s = NaN \<longrightarrow>
      limit_arg qp = NaN \<and> skip_arg qp = NaN) \<and>
   (\<forall>s. qp_page qp = Some s \<and> string_to_number s = NaN \<longrightarrow> skip_arg qp = NaN) \<and>
   (\<forall>s. qp_minPrice qp = Some s \<and> string_to_number s = NaN \<longrightarrow>
      (\<exists>pf. f_price (query_of qp) = Some pf \<and> gte pf = Some NaN)) \<and>
   (\<forall>s. qp_maxPrice qp = Some s \<and> string_to_number s = NaN \<longrightarrow>
      (\<exists>pf. f_price (query_of qp) = Some pf \<and> lte pf = Some NaN))"
proof (intro conjI allI impI)
  fix s assume "qp_limit qp = Some s \<and> string_to_number s = NaN"
  then show "limit_arg qp = NaN" "skip_arg qp = NaN"
    by (simp_all add: limit_arg_eq limit_of_cases skip_arg_def js_mul_NaN_right)
next
  fix s assume "qp_page qp = Some s \<and> string_to_number s = NaN"
  then show "skip_arg qp = NaN"
    by (simp add: page_of_cases skip_arg_def)
next
  fix s assume h: "qp_minPrice qp = Some s \<and> string_to_number s = NaN"
  then have "s \<noteq> []" using string_to_number_empty by auto
  with h show "\<exists>pf. f_price (query_of qp) = Some pf \<and> gte pf = Some NaN"
    by (auto simp: query_of_def Let_def param_def split: option.splits)
next
  fix s assume h: "qp_maxPrice qp = Some s \<and> string_to_number s = NaN"
  then have "s \<noteq> []" using string_to_number_empty by auto
  with h show "\<exists>pf. f_price (query_of qp) = Some pf \<and> lte pf = Some NaN"
    by (auto simp: query_of_def Let_def param_def split: option.splits)
qed

theorem malformed_numbers_pass_through_witness:
  "limit_arg (no_params\<lparr>qp_limit := Some ''abc'', qp_minPrice := Some ''12px''\<rparr>) = NaN \<and>
   skip_arg (no_params\<lparr>qp_limit := Some ''abc'', qp_minPrice := Some ''12px''\<rparr>) = NaN \<and>
   (\<exists>pf. f_price (query_of (no_params\<lparr>qp_limit := Some ''abc'', qp_minPrice := Some ''12px''\<rparr>)) = Some pf \<and>
         gte pf = Some NaN)"
proof -
  let ?qp = "no_params\<lparr>qp_limit := Some ''abc'', qp_minPrice := Some ''12px''\<rparr>"
  have n: "string_to_number ''abc'' = NaN" "string_to_number ''12px'' = NaN"
    by code_simp+
  have q: "qp_limit ?qp = Some ''abc''" "qp_minPrice ?qp = Some ''12px''"
    by (simp_all add: no_params_def)
  from malformed_numbers_pass_through [of ?qp] n q show ?thesis by blast
qed

subsection \<open>Empty parameters\<close>

text \<open>
  C10. A \<open>category\<close>, \<open>brand\<close>, \<open>search\<close>, \<open>sort\<close>, \<open>minPrice\<close> or
  \<open>maxPrice\<close> that is the empty string counts as absent: replacing each empty one of
  them by an absent one changes neither the filter, nor the sort option, nor the answer
  of the handler.
\<close>

theorem empty_string_is_absent:
  "query_of (without_empty qp) = query_of qp \<and>
   sortOption_of (without_empty qp) = sortOption_of qp \<and>
   getProducts env db (without_empty qp) = getProducts env db qp"
proof -
  have q: "query_of (without_empty qp) = query_of qp"
    by (cases "qp_category qp"; cases "qp_brand qp"; cases "qp_minPrice qp";
      cases "qp_maxPrice qp"; cases "qp_search qp")
       (simp_all add: query_of_def without_empty_def unset_if_empty_def param_def Let_def)
  have s: "sortOption_of (without_empty qp) = sortOption_of qp"
    by (cases "qp_sort qp")
       (simp_all add: sortOption_of_def without_empty_def unset_if_empty_def param_def)
  have a: "limit_of (without_empty qp) = limit_of qp" "page_of (without_empty qp) = page_of qp"
    by (simp_all add: limit_of_def page_of_def without_empty_def)
  have "getProducts env db (without_empty qp) = getProducts env db qp"
    unfolding getProducts_def limit_arg_def skip_arg_def q s a ..
  with q s show ?thesis by simp
qed

theorem empty_string_is_absent_witness:
  "getProducts small_env [tee, cap, sock]
     (no_params\<lparr>qp_category := Some [], qp_brand := Some [], qp_search := Some [],
                qp_sort := Some [], qp_minPrice := Some [], qp_maxPrice := Some []\<rparr>) =
   getProducts small_env [tee, cap, sock] no_params"
proof -
  let ?qp = "no_params\<lparr>qp_category := Some [], qp_brand := Some [], qp_search := Some [],
                qp_sort := Some [], qp_minPrice := Some [], qp_maxPrice := Some []\<rparr>"
  have w: "without_empty ?qp = no_params"
    by (simp add: without_empty_def unset_if_empty_def no_params_def)
  from empty_string_is_absent [of ?qp small_env "[tee, cap, sock]"] w
  show ?thesis by simp
qed

end
